theory Spec2Isabelle
  imports Complex_Main
begin

section \<open>The stock price producer (producer.py)\<close>

text \<open>
  The program fetches the pages of a daily price listing over HTTP and republishes every
  record, wrapped in an envelope, to a Kafka topic. Its functions are embedded below as
  HOL functions. What they do to the outside world is made explicit:
  \<^item> every call of the outside world (an HTTP request, a sleep, the creation of the
    producer, a send, flush, close) is appended to a trace of events;
  \<^item> what the outside world answers is a parameter of the model (the environment);
  \<^item> an exception is a value: a call of the environment answers \<open>Inl e\<close> when it raises,
    and the handlers of the source decide by the class of \<open>e\<close>;
  \<^item> a loop that need not end (\<open>while True\<close>) is a partial function into \<open>option\<close>:
    \<open>None\<close> means that the loop runs forever.
  The calls that can raise are those that the source guards with \<open>try\<close>: the request to
  the source, the constructor of the producer, the send with the wait for its result, and,
  in the loop of \<open>main\<close>, the sleep of the interval; so can the two calls of the
  \<open>finally\<close> block, which nothing guards. The clock and the pause of 0.3 seconds between
  two requests are taken to return.
  Logging is not part of the model, except where the logged expression can raise.
\<close>

subsection \<open>Exceptions\<close>

text \<open>
  The handlers of the source tell three classes apart: \<open>KafkaError\<close>, \<open>Exception\<close> (which
  \<open>KafkaError\<close> is a subclass of) and \<open>KeyboardInterrupt\<close>. \<open>KeyboardInterrupt\<close> and
  \<open>SystemExit\<close> derive from \<open>BaseException\<close> only: \<open>except Exception\<close> does not catch them.
\<close>

datatype exc =
    KeyboardInterrupt
  | SystemExit
  | KafkaError
  | AttributeError
  | TypeError
  | OtherException

fun is_Exception :: "exc \<Rightarrow> bool" where
  "is_Exception KeyboardInterrupt = False"
| "is_Exception SystemExit = False"
| "is_Exception e = True"

fun is_KafkaError :: "exc \<Rightarrow> bool" where
  "is_KafkaError KafkaError = True"
| "is_KafkaError e = False"

subsection \<open>Python values\<close>

text \<open>
  The values that \<open>response.json()\<close> returns and that \<open>json.dumps\<close> serialises: \<open>None\<close>,
  booleans, numbers, strings, lists and dictionaries with string keys. A dictionary is the
  list of its items in insertion order (its keys are distinct).
\<close>

datatype json =
    JNull
  | JBool bool
  | JInt int
  | JFloat rat
  | JStr string
  | JArr "json list"
  | JObj "(string \<times> json) list"

text \<open>Truth value testing, as \<open>if not x\<close> does it.\<close>

fun truthy :: "json \<Rightarrow> bool" where
  "truthy JNull = False"
| "truthy (JBool b) = b"
| "truthy (JInt i) = (i \<noteq> 0)"
| "truthy (JFloat x) = (x \<noteq> 0)"
| "truthy (JStr s) = (s \<noteq> [])"
| "truthy (JArr xs) = (xs \<noteq> [])"
| "truthy (JObj kvs) = (kvs \<noteq> [])"

text \<open>\<open>d.get(k, default)\<close>: only a dictionary has the method.\<close>

fun py_get :: "json \<Rightarrow> string \<Rightarrow> json \<Rightarrow> exc + json" where
  "py_get (JObj kvs) k dflt = Inr (case map_of kvs k of Some v \<Rightarrow> v | None \<Rightarrow> dflt)"
| "py_get v k dflt = Inl AttributeError"

text \<open>\<open>len(x)\<close>: strings, lists and dictionaries have a length.\<close>

fun py_len :: "json \<Rightarrow> exc + nat" where
  "py_len (JStr s) = Inr (length s)"
| "py_len (JArr xs) = Inr (length xs)"
| "py_len (JObj kvs) = Inr (length kvs)"
| "py_len v = Inl TypeError"

text \<open>
  The elements that \<open>list.extend(x)\<close> appends: the elements of a list, the keys of a
  dictionary, the characters of a string; nothing else can be iterated.
\<close>

fun py_iter :: "json \<Rightarrow> exc + json list" where
  "py_iter (JArr xs) = Inr xs"
| "py_iter (JObj kvs) = Inr (map (\<lambda>kv. JStr (fst kv)) kvs)"
| "py_iter (JStr s) = Inr (map (\<lambda>c. JStr [c]) s)"
| "py_iter v = Inl TypeError"

text \<open>\<open>str(n)\<close> of an integer: its decimal digits, with a sign when negative.\<close>

definition digit_char :: "nat \<Rightarrow> char" where
  "digit_char d = ''0123456789'' ! d"

fun str_nat :: "nat \<Rightarrow> string" where
  "str_nat n = (if n < 10 then [digit_char n] else str_nat (n div 10) @ [digit_char (n mod 10)])"

declare str_nat.simps [simp del]

definition str_int :: "int \<Rightarrow> string" where
  "str_int i = (if i < 0 then CHR ''-'' # str_nat (nat (- i)) else str_nat (nat i))"

text \<open>\<open>s.strip(chars)\<close>: drops the leading and the trailing characters that are in \<open>chars\<close>.\<close>

definition py_strip :: "string \<Rightarrow> string \<Rightarrow> string" where
  "py_strip chars s =
     rev (dropWhile (\<lambda>c. c \<in> set chars) (rev (dropWhile (\<lambda>c. c \<in> set chars) s)))"

subsection \<open>Configuration\<close>

text \<open>
  The module reads its settings from the environment once, when it is loaded. The record
  holds the values of the module constants; \<open>STOCK_API_KEY\<close> is the value of the
  environment variable (the empty string when it is not set), which \<open>API_KEY\<close> strips of
  single and double quotes.
\<close>

record config =
  KAFKA_BOOTSTRAP_SERVERS :: string
  KAFKA_TOPIC :: string
  API_BASE_URL :: string
  STOCK_API_KEY :: string
  API_ENDPOINT :: string
  COLLECTION_INTERVAL_SECONDS :: int

definition API_KEY :: "config \<Rightarrow> string" where
  "API_KEY cfg = py_strip [CHR 0x22] (py_strip [CHR 0x27] (STOCK_API_KEY cfg))"

subsection \<open>Events\<close>

text \<open>The query parameters of one page request (the dictionary \<open>params\<close>).\<close>

record params =
  serviceKey :: string
  resultType :: string
  numOfRows :: string
  pageNo :: string
  basDt :: string

text \<open>
  The calls that reach the outside world, with their arguments: \<open>requests.get(url, params,
  timeout)\<close>, \<open>time.sleep(seconds)\<close>, \<open>KafkaProducer(bootstrap_servers, ...)\<close>,
  \<open>producer.send(topic, value)\<close>,
  \<open>producer.flush(timeout)\<close> and \<open>producer.close(timeout)\<close>.
\<close>

datatype event =
    HttpGet string params rat
  | Sleep rat
  | ProducerInit "string list"
  | Send string json
  | Flush rat
  | Close rat

subsection \<open>Fetcher: get_all_stock_price_data\<close>

definition api_url :: "config \<Rightarrow> string" where
  "api_url cfg = API_BASE_URL cfg @ ''/'' @ API_ENDPOINT cfg"

text \<open>The dictionary built at the head of the loop body, for page \<open>page_no\<close>.\<close>

definition page_params :: "config \<Rightarrow> int \<Rightarrow> params" where
  "page_params cfg page_no =
     \<lparr> serviceKey = API_KEY cfg,
       resultType = ''json'',
       numOfRows = str_int 100,
       pageNo = str_int page_no,
       basDt = ''20250407'' \<rparr>"

text \<open>\<open>data.get('response', {}).get('body', {}).get('items', {}).get('item', [])\<close>\<close>

definition item_path :: "json \<Rightarrow> exc + json" where
  "item_path data =
     (case py_get data ''response'' (JObj []) of
        Inl e \<Rightarrow> Inl e
      | Inr response \<Rightarrow>
          (case py_get response ''body'' (JObj []) of
             Inl e \<Rightarrow> Inl e
           | Inr body \<Rightarrow>
               (case py_get body ''items'' (JObj []) of
                  Inl e \<Rightarrow> Inl e
                | Inr items \<Rightarrow> py_get items ''item'' (JArr []))))"

text \<open>
  What one pass through the \<open>try\<close> statement of the loop comes to. The environment
  \<open>http\<close> answers the request (\<open>requests.get\<close>, \<open>raise_for_status\<close> and \<open>response.json\<close>
  together) with the decoded body or with the exception raised.
\<close>

datatype page_result =
    Page "json list"
  | NoMoreData
  | Caught exc
  | Uncaught exc

definition handler :: "exc \<Rightarrow> page_result" where
  "handler e = (if is_Exception e then Caught e else Uncaught e)"

definition try_page :: "(params \<Rightarrow> exc + json) \<Rightarrow> params \<Rightarrow> page_result" where
  "try_page http ps =
     (case http ps of
        Inl e \<Rightarrow> handler e
      | Inr data \<Rightarrow>
          (case item_path data of
             Inl e \<Rightarrow> handler e
           | Inr items \<Rightarrow>
               if \<not> truthy items then NoMoreData
               else (case py_len items of
                       Inl e \<Rightarrow> handler e
                     | Inr n \<Rightarrow>
                         (case py_iter items of
                            Inl e \<Rightarrow> handler e
                          | Inr xs \<Rightarrow> Page xs))))"

text \<open>
  The \<open>while True\<close> loop, from the state \<open>page_no\<close>, \<open>collected_data\<close> and the trace so
  far. It returns the value of the function (or the exception that leaves it) and the
  trace; it returns nothing when the source never stops sending pages.
\<close>

partial_function (option) fetch_loop ::
  "config \<Rightarrow> (params \<Rightarrow> exc + json) \<Rightarrow> int \<Rightarrow> json list \<Rightarrow> event list
     \<Rightarrow> ((exc + json list) \<times> event list) option" where
  "fetch_loop cfg http page_no collected_data tr =
     (let ps = page_params cfg page_no;
          tr1 = tr @ [HttpGet (api_url cfg) ps 20]
      in case try_page http ps of
           Page items \<Rightarrow>
             fetch_loop cfg http (page_no + 1) (collected_data @ items) (tr1 @ [Sleep (3 / 10)])
         | NoMoreData \<Rightarrow> Some (Inr collected_data, tr1)
         | Caught e \<Rightarrow> Some (Inr collected_data, tr1)
         | Uncaught e \<Rightarrow> Some (Inl e, tr1))"

definition get_all_stock_price_data ::
  "config \<Rightarrow> (params \<Rightarrow> exc + json) \<Rightarrow> ((exc + json list) \<times> event list) option" where
  "get_all_stock_price_data cfg http =
     (if API_KEY cfg = [] then Some (Inr [], [])
      else fetch_loop cfg http 1 [] [])"

declare fetch_loop.simps [code]

subsection \<open>Publisher: create_kafka_producer and send_to_kafka\<close>

text \<open>\<open>s.split(',')\<close>: the pieces between the separators, empty pieces included.\<close>

fun py_split :: "char \<Rightarrow> string \<Rightarrow> string list" where
  "py_split sep [] = [[]]"
| "py_split sep (c # cs) =
     (if c = sep then [] # py_split sep cs
      else (case py_split sep cs of
              [] \<Rightarrow> [[c]]
            | w # ws \<Rightarrow> (c # w) # ws))"

text \<open>
  \<open>s.strip()\<close> drops white space at both ends: here the white space characters of ASCII
  (tab, line feed, vertical tab, form feed, carriage return, the four separators and the
  space).
\<close>

definition whitespace :: string where
  "whitespace = [CHR 0x09, CHR 0x0A, CHR 0x0B, CHR 0x0C, CHR 0x0D,
                 CHR 0x1C, CHR 0x1D, CHR 0x1E, CHR 0x1F, CHR 0x20]"

definition bootstrap_servers :: "config \<Rightarrow> string list" where
  "bootstrap_servers cfg = map (py_strip whitespace) (py_split CHR '','' (KAFKA_BOOTSTRAP_SERVERS cfg))"

datatype producer = Producer "string list"

text \<open>
  The environment \<open>connect\<close> says how the constructor \<open>KafkaProducer(...)\<close> ends: \<open>None\<close>
  when it returns the producer, \<open>Some e\<close> when it raises \<open>e\<close>. Both handlers return
  \<open>None\<close>; an exception that is no \<open>Exception\<close> leaves the function.
\<close>

definition create_kafka_producer ::
  "config \<Rightarrow> (string list \<Rightarrow> exc option) \<Rightarrow> (exc + producer option) \<times> event list" where
  "create_kafka_producer cfg connect =
     (let servers = bootstrap_servers cfg in
      case connect servers of
        None \<Rightarrow> (Inr (Some (Producer servers)), [ProducerInit servers])
      | Some e \<Rightarrow>
          if is_KafkaError e then (Inr None, [ProducerInit servers])
          else if is_Exception e then (Inr None, [ProducerInit servers])
          else (Inl e, [ProducerInit servers]))"

text \<open>
  The environment \<open>deliver\<close> says how \<open>producer.send(KAFKA_TOPIC, value=data)\<close> and the
  wait for its result, \<open>future.get(timeout=15)\<close>, end: with the partition and the offset
  of the record, or with the exception raised. The event \<open>Send\<close> records the call.
\<close>

type_synonym record_metadata = "int \<times> int"

definition send_to_kafka ::
  "config \<Rightarrow> (json \<Rightarrow> exc + record_metadata) \<Rightarrow> json \<Rightarrow> (exc + bool) \<times> event list" where
  "send_to_kafka cfg deliver data =
     (if \<not> truthy data then (Inr False, [])
      else (case deliver data of
              Inr record_metadata \<Rightarrow> (Inr True, [Send (KAFKA_TOPIC cfg) data])
            | Inl e \<Rightarrow>
                if is_KafkaError e then (Inr False, [Send (KAFKA_TOPIC cfg) data])
                else if is_Exception e then (Inr False, [Send (KAFKA_TOPIC cfg) data])
                else (Inl e, [Send (KAFKA_TOPIC cfg) data])))"

subsection \<open>Dates\<close>

text \<open>
  The date of a \<open>datetime\<close> (the time of day plays no part). \<open>weekday\<close> is computed as the
  standard library does: the proleptic Gregorian ordinal of the date, shifted so that
  Monday is 0 and Sunday is 6. The month of a \<open>datetime\<close> is between 1 and 12; the table
  of the days before a month is read there only.
\<close>

record datetime =
  year :: int
  month :: int
  day :: int

definition is_leap :: "int \<Rightarrow> bool" where
  "is_leap y = (y mod 4 = 0 \<and> (y mod 400 = 0 \<or> y mod 100 \<noteq> 0))"

definition days_before_year :: "int \<Rightarrow> int" where
  "days_before_year y = (y - 1) * 365 + (y - 1) div 4 - (y - 1) div 100 + (y - 1) div 400"

definition days_before_month :: "int \<Rightarrow> int \<Rightarrow> int" where
  "days_before_month y m =
     (if 1 \<le> m \<and> m \<le> 12
      then [0, 31, 59, 90, 120, 151, 181, 212, 243, 273, 304, 334] ! nat (m - 1)
      else 0)
     + (if m > 2 \<and> is_leap y then 1 else 0)"

definition toordinal :: "datetime \<Rightarrow> int" where
  "toordinal d = days_before_year (year d) + days_before_month (year d) (month d) + day d"

definition weekday :: "datetime \<Rightarrow> int" where
  "weekday d = (toordinal d + 6) mod 7"

text \<open>
  \<open>d.strftime('%Y-%m-%d')\<close>: the year on four digits, the month and the day on two
  (the years that \<open>datetime.today()\<close> can return have four digits).
\<close>

definition zero_pad :: "nat \<Rightarrow> string \<Rightarrow> string" where
  "zero_pad n s = replicate (n - length s) CHR ''0'' @ s"

definition strftime_Y_m_d :: "datetime \<Rightarrow> string" where
  "strftime_Y_m_d d =
     zero_pad 4 (str_int (year d)) @ ''-'' @ zero_pad 2 (str_int (month d)) @ ''-''
       @ zero_pad 2 (str_int (day d))"

subsection \<open>Scheduler: the loop of main\<close>

text \<open>
  What the outside world is during one pass through the loop: the date that
  \<open>datetime.today()\<close> returns, the answers of the source, the time stamp that
  \<open>datetime.now().isoformat()\<close> returns for the i-th record, how the i-th send ends and
  how \<open>time.sleep(COLLECTION_INTERVAL_SECONDS)\<close> ends (\<open>None\<close> when it returns).
\<close>

record world =
  clock_today :: datetime
  source :: "params \<Rightarrow> exc + json"
  clock_now :: "nat \<Rightarrow> string"
  broker :: "nat \<Rightarrow> json \<Rightarrow> exc + record_metadata"
  interval_sleep :: "exc option"

text \<open>The dictionary \<open>message\<close> that is built for one item.\<close>

definition message :: "config \<Rightarrow> datetime \<Rightarrow> string \<Rightarrow> json \<Rightarrow> json" where
  "message cfg today retrieved_at item =
     JObj [(''source'', JStr ''stock_price_api''),
           (''api_endpoint'', JStr (API_ENDPOINT cfg)),
           (''search_date'', JStr (strftime_Y_m_d today)),
           (''retrieved_at'', JStr retrieved_at),
           (''data'', item)]"

text \<open>
  \<open>for item in all_data\<close>, from the i-th item on: the value that \<open>send_to_kafka\<close> returns
  is dropped; an exception that leaves \<open>send_to_kafka\<close> leaves the loop.
\<close>

fun send_all :: "config \<Rightarrow> world \<Rightarrow> nat \<Rightarrow> json list \<Rightarrow> exc option \<times> event list" where
  "send_all cfg w i [] = (None, [])"
| "send_all cfg w i (item # rest) =
     (case send_to_kafka cfg (broker w i) (message cfg (clock_today w) (clock_now w i) item) of
        (Inl e, tr) \<Rightarrow> (Some e, tr)
      | (Inr sent, tr) \<Rightarrow>
          (case send_all cfg w (i + 1) rest of
             (raised, tr') \<Rightarrow> (raised, tr @ tr')))"

text \<open>
  One pass through the body of \<open>while True\<close> in \<open>main\<close>: the exception that leaves the
  body, if any, and the trace of the pass. \<open>None\<close> is returned when the fetch never ends.
\<close>

definition main_loop_body :: "config \<Rightarrow> world \<Rightarrow> (exc option \<times> event list) option" where
  "main_loop_body cfg w =
     (let today = clock_today w in
      if weekday today \<ge> 5
      then Some (interval_sleep w, [Sleep (of_int (COLLECTION_INTERVAL_SECONDS cfg))])
      else
        (case get_all_stock_price_data cfg (source w) of
           None \<Rightarrow> None
         | Some (Inl e, tr) \<Rightarrow> Some (Some e, tr)
         | Some (Inr all_data, tr) \<Rightarrow>
             (case (if all_data \<noteq> [] then send_all cfg w 0 all_data else (None, [])) of
                (Some e, tr') \<Rightarrow> Some (Some e, tr @ tr')
              | (None, tr') \<Rightarrow>
                  Some (interval_sleep w,
                        tr @ tr' @ [Sleep (of_int (COLLECTION_INTERVAL_SECONDS cfg))]))))"

text \<open>
  The loop, from its i-th pass on: it ends only with an exception, which it returns with
  the trace.
\<close>

partial_function (option) main_loop ::
  "config \<Rightarrow> (nat \<Rightarrow> world) \<Rightarrow> nat \<Rightarrow> event list \<Rightarrow> (exc \<times> event list) option" where
  "main_loop cfg worlds i tr =
     (case main_loop_body cfg (worlds i) of
        None \<Rightarrow> None
      | Some (Some e, tr') \<Rightarrow> Some (e, tr @ tr')
      | Some (None, tr') \<Rightarrow> main_loop cfg worlds (i + 1) (tr @ tr'))"

declare main_loop.simps [code]

subsection \<open>Lifecycle: main\<close>

text \<open>
  How the two calls of the \<open>finally\<close> block end: \<open>producer.flush(timeout=10)\<close> and
  \<open>producer.close(timeout=10)\<close> each return (\<open>None\<close>) or raise (a timeout of the flush
  with records still buffered, an interrupt from the keyboard during the wait).
\<close>

record shutdown =
  flush_end :: "exc option"
  close_end :: "exc option"

text \<open>
  The \<open>finally\<close> block: two statements with no handler around them. When \<open>flush\<close>
  raises, \<open>close\<close> is not reached; the block returns the exception that leaves it, if
  any, and its trace.
\<close>

definition teardown :: "producer option \<Rightarrow> shutdown \<Rightarrow> exc option \<times> event list" where
  "teardown producer sd =
     (if producer \<noteq> None then
        (case flush_end sd of
           Some e \<Rightarrow> (Some e, [Flush 10])
         | None \<Rightarrow> (close_end sd, [Flush 10, Close 10]))
      else (None, []))"

text \<open>
  What is left of the exception that ended the loop once the handlers of \<open>main\<close> have
  seen it: they catch \<open>KeyboardInterrupt\<close> and \<open>Exception\<close>; any other exception goes on
  after the \<open>finally\<close> block.
\<close>

definition pending :: "exc \<Rightarrow> exc option" where
  "pending e =
     (if e = KeyboardInterrupt then None
      else if is_Exception e then None
      else Some e)"

text \<open>
  \<open>main\<close> returns the exception that leaves it, if any, and the trace of the run. An
  exception raised in the \<open>finally\<close> block takes the place of a pending one.
\<close>

definition main ::
  "config \<Rightarrow> (string list \<Rightarrow> exc option) \<Rightarrow> shutdown \<Rightarrow> (nat \<Rightarrow> world)
     \<Rightarrow> (exc option \<times> event list) option" where
  "main cfg connect sd worlds =
     (if API_KEY cfg = [] then Some (None, [])
      else
        (case create_kafka_producer cfg connect of
           (Inl e, tr0) \<Rightarrow> Some (Some e, tr0)
         | (Inr producer, tr0) \<Rightarrow>
             if producer = None then Some (None, tr0)
             else
               (case main_loop cfg worlds 0 tr0 of
                  None \<Rightarrow> None
                | Some (e, tr) \<Rightarrow>
                    (case teardown producer sd of
                       (Some e', tr') \<Rightarrow> Some (Some e', tr @ tr')
                     | (None, tr') \<Rightarrow> Some (pending e, tr @ tr')))))"

subsection \<open>Reading a trace\<close>

text \<open>The page requests of a trace, in the order they were issued.\<close>

fun requests :: "event list \<Rightarrow> params list" where
  "requests [] = []"
| "requests (HttpGet url ps timeout # tr) = ps # requests tr"
| "requests (e # tr) = requests tr"

text \<open>The values handed to \<open>producer.send\<close>, in the order of the calls.\<close>

fun sent :: "event list \<Rightarrow> json list" where
  "sent [] = []"
| "sent (Send topic v # tr) = v # sent tr"
| "sent (e # tr) = sent tr"


text \<open>
  The trace of \<open>n\<close> passes through the fetch loop that found records, the first for page
  \<open>p\<close>: each is a request and the pause after it.
\<close>

primrec fetch_trace :: "config \<Rightarrow> int \<Rightarrow> nat \<Rightarrow> event list" where
  "fetch_trace cfg p 0 = []"
| "fetch_trace cfg p (Suc n) =
     HttpGet (api_url cfg) (page_params cfg p) 20 # Sleep (3 / 10) # fetch_trace cfg (p + 1) n"

text \<open>
  The trace of the \<open>for\<close> loop over \<open>items\<close>, the first being the i-th of the day, when
  no send is interrupted: one send for each item.
\<close>

primrec send_trace :: "config \<Rightarrow> world \<Rightarrow> nat \<Rightarrow> json list \<Rightarrow> event list" where
  "send_trace cfg w i [] = []"
| "send_trace cfg w i (item # rest) =
     Send (KAFKA_TOPIC cfg) (message cfg (clock_today w) (clock_now w i) item)
       # send_trace cfg w (i + 1) rest"

subsection \<open>An example environment\<close>

text \<open>
  The default settings of the module with a credential, a few records, and the body in
  which the source sends a page of records.
\<close>

definition cfg0 :: config where
  "cfg0 = \<lparr> KAFKA_BOOTSTRAP_SERVERS = ''daa-kafka1:9092,daa-kafka2:9093'',
            KAFKA_TOPIC = ''stock-data'',
            API_BASE_URL = ''https://apis.data.go.kr/1160100/service/GetStockSecuritiesInfoService'',
            STOCK_API_KEY = ''secret'',
            API_ENDPOINT = ''getStockPriceInfo'',
            COLLECTION_INTERVAL_SECONDS = 86400 \<rparr>"

definition rec_a :: json where
  "rec_a = JObj [(''srtnCd'', JStr ''005930''), (''clpr'', JStr ''53200'')]"

definition rec_b :: json where
  "rec_b = JObj [(''srtnCd'', JStr ''000660''), (''clpr'', JStr ''164800'')]"

definition rec_c :: json where
  "rec_c = JObj [(''srtnCd'', JStr ''035420''), (''clpr'', JStr ''180000'')]"

definition api_page :: "json list \<Rightarrow> json" where
  "api_page xs =
     JObj [(''response'', JObj [(''body'', JObj [(''items'', JObj [(''item'', JArr xs)])])])]"

text \<open>A source with two pages of records.\<close>

definition http_two_pages :: "params \<Rightarrow> exc + json" where
  "http_two_pages ps =
     (if pageNo ps = ''1'' then Inr (api_page [rec_a, rec_b])
      else if pageNo ps = ''2'' then Inr (api_page [rec_c])
      else Inr (api_page []))"

text \<open>A source whose second page cannot be fetched (a timeout, say).\<close>

definition http_page_2_fails :: "params \<Rightarrow> exc + json" where
  "http_page_2_fails ps =
     (if pageNo ps = ''1'' then Inr (api_page [rec_a, rec_b])
      else Inl OtherException)"

text \<open>
  A trading day: Tuesday, 8 April 2025. The source has two pages; the broker rejects the
  second record of the day and confirms the others; the sleep returns.
\<close>

definition tuesday :: datetime where
  "tuesday = \<lparr> year = 2025, month = 4, day = 8 \<rparr>"

definition broker_second_fails :: "nat \<Rightarrow> json \<Rightarrow> exc + record_metadata" where
  "broker_second_fails i v = (if i = 1 then Inl KafkaError else Inr (0, int i))"

definition world_tuesday :: world where
  "world_tuesday =
     \<lparr> clock_today = tuesday,
       source = http_two_pages,
       clock_now = (\<lambda>i. ''2025-04-08T09:00:00''),
       broker = broker_second_fails,
       interval_sleep = None \<rparr>"


text \<open>A broker that confirms every record.\<close>

definition broker_ok :: "nat \<Rightarrow> json \<Rightarrow> exc + record_metadata" where
  "broker_ok i v = Inr (0, int i)"




text \<open>
  A broker that can be reached and one that cannot; the settings with a credential that
  is nothing but a pair of quotes.
\<close>

definition connect_ok :: "string list \<Rightarrow> exc option" where
  "connect_ok servers = None"

definition connect_refused :: "string list \<Rightarrow> exc option" where
  "connect_refused servers = Some KafkaError"

definition cfg_no_key :: config where
  "cfg_no_key = cfg0 \<lparr> STOCK_API_KEY := [CHR 0x27, CHR 0x27] \<rparr>"


text \<open>
  A shutdown in which both calls return, and one in which the flush runs into its timeout
  with records still buffered (\<open>KafkaTimeoutError\<close>, a \<open>KafkaError\<close>).
\<close>

definition shutdown_ok :: shutdown where
  "shutdown_ok = \<lparr> flush_end = None, close_end = None \<rparr>"


text \<open>
  The same Tuesday with a source of two pages of 100 records each, and the broker that
  confirms every record.
\<close>

definition http_200_records :: "params \<Rightarrow> exc + json" where
  "http_200_records ps =
     (if pageNo ps = ''1'' \<or> pageNo ps = ''2'' then Inr (api_page (replicate 100 rec_a))
      else Inr (api_page []))"

definition world_tuesday_200 :: world where
  "world_tuesday_200 =
     \<lparr> clock_today = tuesday,
       source = http_200_records,
       clock_now = (\<lambda>i. ''2025-04-08T09:00:00''),
       broker = broker_ok,
       interval_sleep = None \<rparr>"

section \<open>Properties\<close>

subsection \<open>Python values and the example environment\<close>

lemma str_int_simps:
  "str_int 1 = ''1''" "str_int 2 = ''2''" "str_int 3 = ''3''" "str_int 100 = ''100''"
  by (simp_all add: str_int_def str_nat.simps digit_char_def)

lemma upt_3: "[0..<3] = [0, 1, 2]"
  by (simp add: numeral_3_eq_3 upt_rec)

text \<open>The decimal form tells the numbers apart: different page numbers, different strings.\<close>

lemma digit_char_inj: "a < 10 \<Longrightarrow> b < 10 \<Longrightarrow> digit_char a = digit_char b \<Longrightarrow> a = b"
proof -
  assume a: "a < 10" and b: "b < 10" and eq: "digit_char a = digit_char b"
  have d: "distinct ''0123456789''" by simp
  have l: "length ''0123456789'' = 10" by simp
  from eq have "''0123456789'' ! a = ''0123456789'' ! b" by (simp add: digit_char_def)
  with d a b l show "a = b" by (metis nth_eq_iff_index_eq)
qed

lemma str_nat_nonempty: "str_nat n \<noteq> []"
  by (subst str_nat.simps) simp

lemma str_nat_inj: "str_nat m = str_nat n \<Longrightarrow> m = n"
proof (induction m arbitrary: n rule: str_nat.induct)
  case (1 m)
  show ?case
  proof (cases "m < 10")
    case True
    show ?thesis
    proof (cases "n < 10")
      case n: True
      from "1.prems" True n have "digit_char m = digit_char n"
        by (simp add: str_nat.simps [of m] str_nat.simps [of n])
      with True n show ?thesis by (rule digit_char_inj)
    next
      case n: False
      from "1.prems" True n have "[digit_char m] = str_nat (n div 10) @ [digit_char (n mod 10)]"
        by (simp add: str_nat.simps [of m] str_nat.simps [of n])
      then have "str_nat (n div 10) = []" by simp
      with str_nat_nonempty show ?thesis by blast
    qed
  next
    case False
    show ?thesis
    proof (cases "n < 10")
      case n: True
      from "1.prems" False n have "str_nat (m div 10) @ [digit_char (m mod 10)] = [digit_char n]"
        by (simp add: str_nat.simps [of m] str_nat.simps [of n])
      then have "str_nat (m div 10) = []" by simp
      with str_nat_nonempty show ?thesis by blast
    next
      case n: False
      from "1.prems" False n
      have "str_nat (m div 10) @ [digit_char (m mod 10)] = str_nat (n div 10) @ [digit_char (n mod 10)]"
        by (simp add: str_nat.simps [of m] str_nat.simps [of n])
      then have q: "str_nat (m div 10) = str_nat (n div 10)"
        and r: "digit_char (m mod 10) = digit_char (n mod 10)"
        by simp_all
      from "1.IH" [OF False q] have "m div 10 = n div 10" .
      moreover from r have "m mod 10 = n mod 10"
        by (intro digit_char_inj) simp_all
      ultimately show ?thesis by (metis div_mult_mod_eq)
    qed
  qed
qed

lemma str_int_page_inj: "0 \<le> p \<Longrightarrow> 0 \<le> q \<Longrightarrow> str_int p = str_int q \<Longrightarrow> p = q"
  by (auto simp add: str_int_def dest: str_nat_inj)

lemma API_KEY_cfg0: "API_KEY cfg0 = ''secret''"
  by (simp add: API_KEY_def cfg0_def py_strip_def)

lemma item_path_api_page: "item_path (api_page xs) = Inr (JArr xs)"
  by (simp add: item_path_def api_page_def)

subsection \<open>One pass through the fetch loop\<close>

lemma try_page_records:
  "http ps = Inr data \<Longrightarrow> item_path data = Inr (JArr xs) \<Longrightarrow> xs \<noteq> [] \<Longrightarrow>
   try_page http ps = Page xs"
  by (simp add: try_page_def)

lemma try_page_falsy:
  "http ps = Inr data \<Longrightarrow> item_path data = Inr items \<Longrightarrow> \<not> truthy items \<Longrightarrow>
   try_page http ps = NoMoreData"
  by (simp add: try_page_def)

lemma fetch_loop_Page:
  "try_page http (page_params cfg p) = Page items \<Longrightarrow>
   fetch_loop cfg http p acc tr =
   fetch_loop cfg http (p + 1) (acc @ items)
     (tr @ [HttpGet (api_url cfg) (page_params cfg p) 20, Sleep (3 / 10)])"
  by (subst fetch_loop.simps) (simp add: Let_def)

lemma fetch_loop_NoMoreData:
  "try_page http (page_params cfg p) = NoMoreData \<Longrightarrow>
   fetch_loop cfg http p acc tr =
   Some (Inr acc, tr @ [HttpGet (api_url cfg) (page_params cfg p) 20])"
  by (subst fetch_loop.simps) (simp add: Let_def)

lemma fetch_loop_Caught:
  "try_page http (page_params cfg p) = Caught e \<Longrightarrow>
   fetch_loop cfg http p acc tr =
   Some (Inr acc, tr @ [HttpGet (api_url cfg) (page_params cfg p) 20])"
  by (subst fetch_loop.simps) (simp add: Let_def)

lemma fetch_loop_Uncaught:
  "try_page http (page_params cfg p) = Uncaught e \<Longrightarrow>
   fetch_loop cfg http p acc tr =
   Some (Inl e, tr @ [HttpGet (api_url cfg) (page_params cfg p) 20])"
  by (subst fetch_loop.simps) (simp add: Let_def)

subsection \<open>The fetch loop over pages of records\<close>

lemma requests_append: "requests (tr @ tr') = requests tr @ requests tr'"
  by (induction tr rule: requests.induct) simp_all

lemma requests_fetch_trace:
  "requests (fetch_trace cfg p n) = map (\<lambda>k. page_params cfg (p + int k)) [0..<n]"
proof (induction n arbitrary: p)
  case 0
  show ?case by simp
next
  case (Suc n)
  have "map (\<lambda>k. page_params cfg (p + int k)) [0..<Suc n] =
        page_params cfg p # map (\<lambda>k. page_params cfg (p + 1 + int k)) [0..<n]"
    by (simp add: upt_conv_Cons map_Suc_upt [symmetric] add.assoc del: upt_Suc)
  with Suc show ?case by simp
qed

text \<open>
  While the source answers with records, the loop goes from page to page, adding the
  records to the result and a request and a pause to the trace.
\<close>

lemma fetch_loop_pages:
  "\<forall>k<length pages. try_page http (page_params cfg (p + int k)) = Page (pages ! k) \<Longrightarrow>
   fetch_loop cfg http p acc tr =
   fetch_loop cfg http (p + int (length pages)) (acc @ concat pages)
     (tr @ fetch_trace cfg p (length pages))"
proof (induction pages arbitrary: p acc tr)
  case Nil
  show ?case by simp
next
  case (Cons x xs)
  from Cons.prems have first: "try_page http (page_params cfg p) = Page x"
    by fastforce
  have rest: "\<forall>k<length xs. try_page http (page_params cfg (p + 1 + int k)) = Page (xs ! k)"
  proof (intro allI impI)
    fix k assume "k < length xs"
    then have "Suc k < length (x # xs)" by simp
    with Cons.prems
    have "try_page http (page_params cfg (p + int (Suc k))) = Page ((x # xs) ! Suc k)"
      by blast
    then show "try_page http (page_params cfg (p + 1 + int k)) = Page (xs ! k)"
      by (simp add: add.assoc)
  qed
  have "p + 1 + int (length xs) = p + int (length (x # xs))" by simp
  with fetch_loop_Page [OF first] Cons.IH [OF rest] show ?case
    by simp
qed

lemma get_all_pages:
  assumes key: "API_KEY cfg \<noteq> []"
    and pages: "\<forall>k<length pages. try_page http (page_params cfg (1 + int k)) = Page (pages ! k)"
  shows "get_all_stock_price_data cfg http =
         fetch_loop cfg http (1 + int (length pages)) (concat pages)
           (fetch_trace cfg 1 (length pages))"
  using key fetch_loop_pages [OF pages, of "[]" "[]"]
  by (simp add: get_all_stock_price_data_def)

text \<open>
  C1. With a credential configured, let the source answer the requests for the pages
  1 to n with non-empty lists of records and the request for page n + 1 with a body
  that holds no records (an empty list, or none at all). Then
  \<open>get_all_stock_price_data\<close> returns the records of the n pages, concatenated in the
  order of the requests; it issues n + 1 requests, for the pages 1 to n + 1 in this
  order; and the last pass ends at the \<open>break\<close> for no more data, not in the handler.
\<close>

theorem fetch_all_until_empty_page:
  assumes key: "API_KEY cfg \<noteq> []"
    and pages: "\<forall>k<length pages. pages ! k \<noteq> [] \<and>
                  (\<exists>data. http (page_params cfg (1 + int k)) = Inr data \<and>
                          item_path data = Inr (JArr (pages ! k)))"
    and final: "http (page_params cfg (1 + int (length pages))) = Inr data"
               "item_path data = Inr items" "\<not> truthy items"
  shows "\<exists>tr. get_all_stock_price_data cfg http = Some (Inr (concat pages), tr) \<and>
              requests tr = map (\<lambda>k. page_params cfg (1 + int k)) [0..<length pages + 1] \<and>
              length (requests tr) = length pages + 1 \<and>
              try_page http (page_params cfg (1 + int (length pages))) = NoMoreData"
proof -
  from pages
  have "\<forall>k<length pages. try_page http (page_params cfg (1 + int k)) = Page (pages ! k)"
    by (auto intro: try_page_records)
  note run = get_all_pages [OF key this]
  have stop: "try_page http (page_params cfg (1 + int (length pages))) = NoMoreData"
    using final by (rule try_page_falsy)
  let ?tr = "fetch_trace cfg 1 (length pages) @
             [HttpGet (api_url cfg) (page_params cfg (1 + int (length pages))) 20]"
  have "get_all_stock_price_data cfg http = Some (Inr (concat pages), ?tr)"
    using run fetch_loop_NoMoreData [OF stop] by simp
  moreover have "requests ?tr = map (\<lambda>k. page_params cfg (1 + int k)) [0..<length pages + 1]"
    by (simp add: requests_append requests_fetch_trace)
  ultimately show ?thesis using stop by auto
qed

text \<open>The example source: two pages of records, then an empty page; three requests.\<close>

theorem fetch_all_until_empty_page_witness:
  "\<exists>tr. get_all_stock_price_data cfg0 http_two_pages = Some (Inr [rec_a, rec_b, rec_c], tr) \<and>
        map pageNo (requests tr) = [''1'', ''2'', ''3'']"
proof -
  have key: "API_KEY cfg0 \<noteq> []" by (simp add: API_KEY_cfg0)
  have pages: "\<forall>k<length [[rec_a, rec_b], [rec_c]]. [[rec_a, rec_b], [rec_c]] ! k \<noteq> [] \<and>
      (\<exists>data. http_two_pages (page_params cfg0 (1 + int k)) = Inr data \<and>
              item_path data = Inr (JArr ([[rec_a, rec_b], [rec_c]] ! k)))"
    by (simp add: All_less_Suc numeral_2_eq_2 http_two_pages_def page_params_def
        str_int_simps item_path_api_page)
  have final:
    "http_two_pages (page_params cfg0 (1 + int (length [[rec_a, rec_b], [rec_c]]))) =
     Inr (api_page [])"
    by (simp add: http_two_pages_def page_params_def str_int_simps)
  have empty: "item_path (api_page []) = Inr (JArr [])" "\<not> truthy (JArr [])"
    by (simp_all add: item_path_api_page)
  from fetch_all_until_empty_page [OF key pages final empty]
  show ?thesis
    by (auto simp add: page_params_def str_int_simps upt_rec [of 0] upt_rec [of 1]
        upt_rec [of 2] upt_rec [of 3] numeral_3_eq_3)
qed

subsection \<open>Failed requests\<close>

lemma py_get_Inl: "py_get v k dflt = Inl e \<Longrightarrow> e = AttributeError"
  by (cases v) simp_all

lemma item_path_Inl: "item_path data = Inl e \<Longrightarrow> e = AttributeError"
  by (auto simp add: item_path_def split: sum.splits dest: py_get_Inl)

lemma py_iter_Inl: "py_iter items = Inl e \<Longrightarrow> e = TypeError \<and> py_len items = Inl TypeError"
  by (cases items) simp_all

lemma py_len_Inr: "py_len items = Inr n \<Longrightarrow> \<exists>xs. py_iter items = Inr xs"
  by (cases items) simp_all

lemma py_len_Inl: "py_len items = Inl e \<Longrightarrow> e = TypeError \<and> py_iter items = Inl TypeError"
  by (cases items) simp_all

lemma try_page_raises:
  "http ps = Inl e \<Longrightarrow> is_Exception e \<Longrightarrow> try_page http ps = Caught e"
  by (simp add: try_page_def handler_def)

lemma try_page_malformed:
  "http ps = Inr data \<Longrightarrow> item_path data = Inl e \<Longrightarrow> try_page http ps = Caught e"
  by (auto simp add: try_page_def handler_def dest: item_path_Inl)

lemma try_page_not_iterable:
  "http ps = Inr data \<Longrightarrow> item_path data = Inr items \<Longrightarrow> truthy items \<Longrightarrow>
   py_iter items = Inl e \<Longrightarrow> try_page http ps = Caught e"
  by (auto simp add: try_page_def handler_def dest: py_iter_Inl)

lemma try_page_Caught_iff:
  "try_page http ps = Caught e \<longleftrightarrow>
     (http ps = Inl e \<and> is_Exception e) \<or>
     (\<exists>data. http ps = Inr data \<and>
        (item_path data = Inl e \<or>
         (\<exists>items. item_path data = Inr items \<and> truthy items \<and> py_iter items = Inl e)))"
  by (auto simp add: try_page_def handler_def split: sum.splits if_splits
      dest: item_path_Inl py_iter_Inl py_len_Inr py_len_Inl)

text \<open>
  C2. With a credential configured, let the source answer the requests for the pages
  1 to k - 1 with non-empty lists of records (\<open>pages\<close>, so k is their number plus one),
  and let the request for page k fail: the request raises an \<open>Exception\<close> (a network
  error, a timeout, an error status, a body that is no JSON), or the body has not the
  shape that the path through it expects, or what it holds for the records cannot be
  iterated. Then \<open>get_all_stock_price_data\<close> returns normally (\<open>Inr\<close>: no exception
  reaches the caller) the records of the pages 1 to k - 1, concatenated; it has issued k
  requests, for the pages 1 to k, and the failed request is the last event of its trace.
\<close>

theorem fetch_stops_at_failed_page:
  assumes key: "API_KEY cfg \<noteq> []"
    and pages: "\<forall>k<length pages. pages ! k \<noteq> [] \<and>
                  (\<exists>data. http (page_params cfg (1 + int k)) = Inr data \<and>
                          item_path data = Inr (JArr (pages ! k)))"
    and fails: "(http (page_params cfg (1 + int (length pages))) = Inl e \<and> is_Exception e) \<or>
                (\<exists>data. http (page_params cfg (1 + int (length pages))) = Inr data \<and>
                   (item_path data = Inl e \<or>
                    (\<exists>items. item_path data = Inr items \<and> truthy items \<and>
                       py_iter items = Inl e)))"
  shows "\<exists>tr. get_all_stock_price_data cfg http = Some (Inr (concat pages), tr) \<and>
              requests tr = map (\<lambda>k. page_params cfg (1 + int k)) [0..<length pages + 1] \<and>
              length (requests tr) = length pages + 1 \<and>
              last tr = HttpGet (api_url cfg) (page_params cfg (1 + int (length pages))) 20"
proof -
  from pages
  have "\<forall>k<length pages. try_page http (page_params cfg (1 + int k)) = Page (pages ! k)"
    by (auto intro: try_page_records)
  note run = get_all_pages [OF key this]
  have stop: "try_page http (page_params cfg (1 + int (length pages))) = Caught e"
    using fails by (simp add: try_page_Caught_iff)
  let ?tr = "fetch_trace cfg 1 (length pages) @
             [HttpGet (api_url cfg) (page_params cfg (1 + int (length pages))) 20]"
  have "get_all_stock_price_data cfg http = Some (Inr (concat pages), ?tr)"
    using run fetch_loop_Caught [OF stop] by simp
  moreover have "requests ?tr = map (\<lambda>k. page_params cfg (1 + int k)) [0..<length pages + 1]"
    by (simp add: requests_append requests_fetch_trace)
  ultimately show ?thesis by auto
qed

text \<open>The example source: the second request times out; the first page is returned.\<close>

theorem fetch_stops_at_failed_page_witness:
  "\<exists>tr. get_all_stock_price_data cfg0 http_page_2_fails = Some (Inr [rec_a, rec_b], tr) \<and>
        map pageNo (requests tr) = [''1'', ''2''] \<and>
        last tr = HttpGet (api_url cfg0) (page_params cfg0 2) 20"
proof -
  have key: "API_KEY cfg0 \<noteq> []" by (simp add: API_KEY_cfg0)
  have pages: "\<forall>k<length [[rec_a, rec_b]]. [[rec_a, rec_b]] ! k \<noteq> [] \<and>
      (\<exists>data. http_page_2_fails (page_params cfg0 (1 + int k)) = Inr data \<and>
              item_path data = Inr (JArr ([[rec_a, rec_b]] ! k)))"
    by (simp add: http_page_2_fails_def page_params_def str_int_simps item_path_api_page)
  have fails:
    "(http_page_2_fails (page_params cfg0 (1 + int (length [[rec_a, rec_b]]))) = Inl OtherException \<and>
      is_Exception OtherException) \<or>
     (\<exists>data. http_page_2_fails (page_params cfg0 (1 + int (length [[rec_a, rec_b]]))) = Inr data \<and>
        (item_path data = Inl OtherException \<or>
         (\<exists>items. item_path data = Inr items \<and> truthy items \<and> py_iter items = Inl OtherException)))"
    by (simp add: http_page_2_fails_def page_params_def str_int_simps)
  from fetch_stops_at_failed_page [OF key pages fails]
  show ?thesis
    by (auto simp add: page_params_def str_int_simps upt_rec [of 0] upt_rec [of 1]
        upt_rec [of 2] numeral_2_eq_2)
qed

subsection \<open>The trace of a fetch\<close>

text \<open>
  Whatever the source answers, a fetch loop that ends has run through some number n of
  pages with records and then made one last request.
\<close>

lemma fetch_loop_trace_aux:
  assumes "fetch_loop cfg http p acc tr = Some y"
  shows "\<exists>n. snd y =
    tr @ fetch_trace cfg p n @ [HttpGet (api_url cfg) (page_params cfg (p + int n)) 20]"
proof (rule fetch_loop.raw_induct [where P = "\<lambda>cfg http p acc tr y. \<exists>n. snd y =
    tr @ fetch_trace cfg p n @ [HttpGet (api_url cfg) (page_params cfg (p + int n)) 20]",
    OF _ assms], goal_cases)
  case (1 f cfg http page_no collected_data tr y)
  let ?req = "HttpGet (api_url cfg) (page_params cfg page_no) 20"
  show ?case
  proof (cases "try_page http (page_params cfg page_no)")
    case (Page items)
    with 1(2) have "f cfg http (page_no + 1) (collected_data @ items)
        ((tr @ [?req]) @ [Sleep (3 / 10)]) = Some y"
      by (simp add: Let_def)
    from 1(1) [OF this] obtain n where
      "snd y = ((tr @ [?req]) @ [Sleep (3 / 10)]) @ fetch_trace cfg (page_no + 1) n @
             [HttpGet (api_url cfg) (page_params cfg (page_no + 1 + int n)) 20]"
      by blast
    then have "snd y = tr @ fetch_trace cfg page_no (Suc n) @
                 [HttpGet (api_url cfg) (page_params cfg (page_no + int (Suc n))) 20]"
      by (simp add: add.assoc)
    then show ?thesis by blast
  next
    case NoMoreData
    with 1(2) have "snd y = tr @ fetch_trace cfg page_no 0 @
        [HttpGet (api_url cfg) (page_params cfg (page_no + int 0)) 20]"
      by (auto simp add: Let_def)
    then show ?thesis by blast
  next
    case (Caught e)
    with 1(2) have "snd y = tr @ fetch_trace cfg page_no 0 @
        [HttpGet (api_url cfg) (page_params cfg (page_no + int 0)) 20]"
      by (auto simp add: Let_def)
    then show ?thesis by blast
  next
    case (Uncaught e)
    with 1(2) have "snd y = tr @ fetch_trace cfg page_no 0 @
        [HttpGet (api_url cfg) (page_params cfg (page_no + int 0)) 20]"
      by (auto simp add: Let_def)
    then show ?thesis by blast
  qed
qed

lemma fetch_loop_trace:
  "fetch_loop cfg http p acc tr = Some (r, tr') \<Longrightarrow>
   \<exists>n. tr' = tr @ fetch_trace cfg p n @ [HttpGet (api_url cfg) (page_params cfg (p + int n)) 20]"
  by (drule fetch_loop_trace_aux) simp

lemma get_all_trace:
  assumes "get_all_stock_price_data cfg http = Some (r, tr)"
  shows "tr = [] \<or>
         (\<exists>n. tr = fetch_trace cfg 1 n @ [HttpGet (api_url cfg) (page_params cfg (1 + int n)) 20])"
proof (cases "API_KEY cfg = []")
  case True
  with assms show ?thesis by (simp add: get_all_stock_price_data_def)
next
  case False
  with assms have "fetch_loop cfg http 1 [] [] = Some (r, tr)"
    by (simp add: get_all_stock_price_data_def)
  from fetch_loop_trace [OF this] show ?thesis by simp
qed

lemma get_all_requests:
  assumes "get_all_stock_price_data cfg http = Some (r, tr)"
  shows "\<exists>n. requests tr = map (\<lambda>k. page_params cfg (1 + int k)) [0..<n]"
proof -
  from get_all_trace [OF assms] consider "tr = []"
    | n where "tr = fetch_trace cfg 1 n @ [HttpGet (api_url cfg) (page_params cfg (1 + int n)) 20]"
    by blast
  then show ?thesis
  proof cases
    case 1
    then have "requests tr = map (\<lambda>k. page_params cfg (1 + int k)) [0..<0]" by simp
    then show ?thesis by blast
  next
    case 2
    then have "requests tr = map (\<lambda>k. page_params cfg (1 + int k)) [0..<Suc n]"
      by (simp add: requests_append requests_fetch_trace)
    then show ?thesis by blast
  qed
qed

text \<open>
  C9. The page requests of one fetch, in the order they were issued, are the dictionaries
  that the loop builds for \<open>page_no\<close> = 1, 2, 3, ...: the page number of the i-th request
  (counting from 0) is the decimal form of 1 + i, so the first is 1 and each one is one
  more than the one before; the page size of every request is 100. No page is asked for
  twice.
\<close>

theorem page_requests_count_up:
  assumes "get_all_stock_price_data cfg http = Some (r, tr)"
  shows "requests tr = map (\<lambda>k. page_params cfg (1 + int k)) [0..<length (requests tr)] \<and>
         (\<forall>i<length (requests tr).
            pageNo (requests tr ! i) = str_int (1 + int i) \<and>
            numOfRows (requests tr ! i) = ''100'') \<and>
         distinct (map pageNo (requests tr))"
proof -
  from get_all_requests [OF assms] obtain n
    where eq: "requests tr = map (\<lambda>k. page_params cfg (1 + int k)) [0..<n]"
    by blast
  then have len: "length (requests tr) = n" by simp
  have "pageNo (requests tr ! i) = str_int (1 + int i) \<and> numOfRows (requests tr ! i) = ''100''"
    if "i < n" for i
    using that by (simp add: eq page_params_def str_int_simps)
  moreover have "distinct (map pageNo (requests tr))"
  proof -
    have "map pageNo (requests tr) = map (\<lambda>k. str_int (1 + int k)) [0..<n]"
      by (simp add: eq page_params_def comp_def)
    moreover have "inj_on (\<lambda>k. str_int (1 + int k)) (set [0..<n])"
      by (rule inj_onI) (auto dest: str_int_page_inj [rotated 2])
    ultimately show ?thesis by (simp add: distinct_map)
  qed
  ultimately show ?thesis using eq len by simp
qed

text \<open>The example source: three requests, for the pages 1, 2 and 3, each of size 100.\<close>

theorem page_requests_count_up_witness:
  "\<exists>r tr. get_all_stock_price_data cfg0 http_two_pages = Some (r, tr) \<and>
     map pageNo (requests tr) = [''1'', ''2'', ''3''] \<and>
     map numOfRows (requests tr) = [''100'', ''100'', ''100'']"
proof -
  have run: "get_all_stock_price_data cfg0 http_two_pages =
     Some (Inr [rec_a, rec_b, rec_c],
           fetch_trace cfg0 1 2 @ [HttpGet (api_url cfg0) (page_params cfg0 3) 20])"
    by (simp add: get_all_stock_price_data_def API_KEY_cfg0 fetch_loop_Page fetch_loop_NoMoreData
        try_page_def http_two_pages_def page_params_def str_int_simps item_path_api_page
        numeral_2_eq_2)
  let ?tr = "fetch_trace cfg0 1 2 @ [HttpGet (api_url cfg0) (page_params cfg0 3) 20]"
  have len: "length (requests ?tr) = 3"
    by (simp add: requests_append numeral_2_eq_2)
  from page_requests_count_up [OF run]
  have "requests ?tr = map (\<lambda>k. page_params cfg0 (1 + int k)) [0..<length (requests ?tr)]"
    by (rule conjunct1)
  then have "requests ?tr = map (\<lambda>k. page_params cfg0 (1 + int k)) [0..<3]"
    by (simp only: len)
  then have res: "map pageNo (requests ?tr) = [''1'', ''2'', ''3''] \<and>
     map numOfRows (requests ?tr) = [''100'', ''100'', ''100'']"
    by (simp add: upt_3 page_params_def str_int_simps)
  show ?thesis
    by (rule exI [where x = "Inr [rec_a, rec_b, rec_c]"], rule exI [where x = "?tr"])
       (simp only: run res simp_thms)
qed

subsection \<open>Sending one message\<close>

text \<open>
  C10. Called with a value that tests false (\<open>None\<close>, an empty dictionary, an empty
  list or string, zero, \<open>False\<close>), \<open>send_to_kafka\<close> returns \<open>False\<close> and calls nothing of
  the producer; called with any other value it calls \<open>producer.send\<close> once, with the
  topic and that value.
\<close>

theorem send_to_kafka_falsy_data:
  "(\<not> truthy data \<longrightarrow> send_to_kafka cfg deliver data = (Inr False, [])) \<and>
   (truthy data \<longrightarrow> snd (send_to_kafka cfg deliver data) = [Send (KAFKA_TOPIC cfg) data])"
  by (simp add: send_to_kafka_def split: sum.splits)

text \<open>An empty dictionary is not sent; a record is.\<close>

theorem send_to_kafka_falsy_data_witness:
  "send_to_kafka cfg0 (broker_second_fails 0) (JObj []) = (Inr False, []) \<and>
   snd (send_to_kafka cfg0 (broker_second_fails 0) rec_a) = [Send ''stock-data'' rec_a]"
proof -
  have "\<not> truthy (JObj [])" and "truthy rec_a"
    by (simp_all add: rec_a_def)
  with send_to_kafka_falsy_data [of "JObj []" cfg0 "broker_second_fails 0"]
    send_to_kafka_falsy_data [of rec_a cfg0 "broker_second_fails 0"]
  show ?thesis by (simp add: cfg0_def)
qed

subsection \<open>Sending the records of a day\<close>

lemma truthy_message: "truthy (message cfg today retrieved_at item)"
  by (simp add: message_def)

lemma send_to_kafka_message:
  "\<forall>e. deliver (message cfg today ts item) = Inl e \<longrightarrow> is_Exception e \<Longrightarrow>
   \<exists>ok. send_to_kafka cfg deliver (message cfg today ts item) =
     (Inr ok, [Send (KAFKA_TOPIC cfg) (message cfg today ts item)])"
  by (auto simp add: send_to_kafka_def truthy_message split: sum.splits)

lemma send_all_trace:
  "\<forall>k<length items. \<forall>e.
      broker w (i + k) (message cfg (clock_today w) (clock_now w (i + k)) (items ! k)) = Inl e
        \<longrightarrow> is_Exception e \<Longrightarrow>
   send_all cfg w i items = (None, send_trace cfg w i items)"
proof (induction items arbitrary: i)
  case Nil
  show ?case by simp
next
  case (Cons item rest)
  from Cons.prems [rule_format, of 0]
  have "\<forall>e. broker w i (message cfg (clock_today w) (clock_now w i) item) = Inl e \<longrightarrow> is_Exception e"
    by simp
  then obtain ok where first:
    "send_to_kafka cfg (broker w i) (message cfg (clock_today w) (clock_now w i) item) =
       (Inr ok, [Send (KAFKA_TOPIC cfg) (message cfg (clock_today w) (clock_now w i) item)])"
    using send_to_kafka_message [of "broker w i" cfg "clock_today w" "clock_now w i" item]
    by blast
  have "\<forall>k<length rest. \<forall>e.
      broker w (i + 1 + k) (message cfg (clock_today w) (clock_now w (i + 1 + k)) (rest ! k)) = Inl e
        \<longrightarrow> is_Exception e"
  proof (intro allI impI)
    fix k e
    assume "k < length rest"
      and "broker w (i + 1 + k) (message cfg (clock_today w) (clock_now w (i + 1 + k)) (rest ! k)) = Inl e"
    with Cons.prems [rule_format, of "Suc k" e] show "is_Exception e" by simp
  qed
  from Cons.IH [OF this] first show ?case by simp
qed

lemma sent_send_trace:
  "sent (send_trace cfg w i items) =
   map (\<lambda>k. message cfg (clock_today w) (clock_now w (i + k)) (items ! k)) [0..<length items]"
proof (induction items arbitrary: i)
  case Nil
  show ?case by simp
next
  case (Cons item rest)
  have "map (\<lambda>k. message cfg (clock_today w) (clock_now w (i + k)) ((item # rest) ! k))
          [0..<length (item # rest)] =
        message cfg (clock_today w) (clock_now w i) item #
        map (\<lambda>k. message cfg (clock_today w) (clock_now w (i + 1 + k)) (rest ! k)) [0..<length rest]"
    by (simp add: upt_conv_Cons map_Suc_upt [symmetric] del: upt_Suc)
  with Cons.IH [of "i + 1"] show ?case by simp
qed

lemma sent_append: "sent (tr @ tr') = sent tr @ sent tr'"
  by (induction tr rule: sent.induct) simp_all

lemma sent_fetch_trace: "sent (fetch_trace cfg p n) = []"
  by (induction n arbitrary: p) simp_all

lemma requests_send_trace: "requests (send_trace cfg w i items) = []"
  by (induction items arbitrary: i) simp_all

lemma get_all_sent:
  assumes "get_all_stock_price_data cfg http = Some (r, tr)"
  shows "sent tr = []"
  using get_all_trace [OF assms] by (auto simp add: sent_append sent_fetch_trace)

lemma message_data: "py_get (message cfg today ts item) ''data'' dflt = Inr item"
  by (simp add: message_def)

text \<open>The pass through the loop on a trading day, when no send is interrupted.\<close>

lemma main_loop_body_trading_day:
  assumes day: "weekday (clock_today w) < 5"
    and fetch: "get_all_stock_price_data cfg (source w) = Some (Inr all_data, tr)"
    and sends: "\<forall>k<length all_data. \<forall>e.
      broker w k (message cfg (clock_today w) (clock_now w k) (all_data ! k)) = Inl e
        \<longrightarrow> is_Exception e"
  shows "main_loop_body cfg w =
         Some (interval_sleep w,
               tr @ send_trace cfg w 0 all_data @
               [Sleep (of_int (COLLECTION_INTERVAL_SECONDS cfg))])"
proof -
  from sends have "send_all cfg w 0 all_data = (None, send_trace cfg w 0 all_data)"
    using send_all_trace [of all_data w 0 cfg] by simp
  with day fetch show ?thesis
    by (cases all_data) (simp_all add: main_loop_body_def)
qed

text \<open>
  C5. On a trading day, let the fetch return the list \<open>all_data\<close> of m records, and let
  every send either be confirmed or fail with an \<open>Exception\<close> (a \<open>KafkaError\<close> or any
  other; the broker decides freely for each record). Then the pass through the loop
  calls \<open>producer.send\<close> exactly m times: the k-th call sends the message built for the
  k-th record, whose \<open>data\<close> field is that record. No record is sent twice or left out,
  also not after a failed send: the loop goes on with the next record, and then sleeps.
\<close>

theorem one_send_per_record:
  assumes day: "weekday (clock_today w) < 5"
    and fetch: "get_all_stock_price_data cfg (source w) = Some (Inr all_data, tr)"
    and sends: "\<forall>k<length all_data. \<forall>e.
      broker w k (message cfg (clock_today w) (clock_now w k) (all_data ! k)) = Inl e
        \<longrightarrow> is_Exception e"
  shows "\<exists>tr'. main_loop_body cfg w = Some (interval_sleep w, tr') \<and>
           sent tr' = map (\<lambda>k. message cfg (clock_today w) (clock_now w k) (all_data ! k))
                          [0..<length all_data] \<and>
           length (sent tr') = length all_data \<and>
           map (\<lambda>m. py_get m ''data'' JNull) (sent tr') = map Inr all_data"
proof -
  let ?tr' = "tr @ send_trace cfg w 0 all_data @ [Sleep (of_int (COLLECTION_INTERVAL_SECONDS cfg))]"
  have body: "main_loop_body cfg w = Some (interval_sleep w, ?tr')"
    using assms by (rule main_loop_body_trading_day)
  have msgs: "sent ?tr' = map (\<lambda>k. message cfg (clock_today w) (clock_now w k) (all_data ! k))
                          [0..<length all_data]"
    using get_all_sent [OF fetch] sent_send_trace [of cfg w 0 all_data]
    by (simp add: sent_append)
  have "map (\<lambda>m. py_get m ''data'' JNull) (sent ?tr') =
        map (\<lambda>k. Inr (all_data ! k)) [0..<length all_data]"
    by (simp add: msgs message_data)
  also have "\<dots> = map Inr (map (\<lambda>k. all_data ! k) [0..<length all_data])"
    by simp
  also have "\<dots> = map Inr all_data"
    by (simp only: map_nth)
  finally have "map (\<lambda>m. py_get m ''data'' JNull) (sent ?tr') = map Inr all_data" .
  with body msgs show ?thesis by simp
qed

lemma weekday_tuesday: "weekday tuesday = 1"
  by (simp add: weekday_def toordinal_def days_before_year_def days_before_month_def
      is_leap_def tuesday_def)

lemma get_all_two_pages:
  "get_all_stock_price_data cfg0 http_two_pages =
     Some (Inr [rec_a, rec_b, rec_c],
           fetch_trace cfg0 1 2 @ [HttpGet (api_url cfg0) (page_params cfg0 3) 20])"
  by (simp add: get_all_stock_price_data_def API_KEY_cfg0 fetch_loop_Page fetch_loop_NoMoreData
      try_page_def http_two_pages_def page_params_def str_int_simps item_path_api_page
      numeral_2_eq_2)

text \<open>
  The example day: three records are fetched, the broker rejects the second, and all
  three are sent once, in order.
\<close>

theorem one_send_per_record_witness:
  "\<exists>tr'. main_loop_body cfg0 world_tuesday = Some (None, tr') \<and>
     map (\<lambda>m. py_get m ''data'' JNull) (sent tr') = [Inr rec_a, Inr rec_b, Inr rec_c] \<and>
     broker_second_fails 1 (message cfg0 tuesday ''2025-04-08T09:00:00'' rec_b) = Inl KafkaError"
proof -
  have day: "weekday (clock_today world_tuesday) < 5"
    by (simp add: world_tuesday_def weekday_tuesday)
  have fetch: "get_all_stock_price_data cfg0 (source world_tuesday) =
     Some (Inr [rec_a, rec_b, rec_c],
           fetch_trace cfg0 1 2 @ [HttpGet (api_url cfg0) (page_params cfg0 3) 20])"
    by (simp add: world_tuesday_def get_all_two_pages)
  have sends: "\<forall>k<length [rec_a, rec_b, rec_c]. \<forall>e.
      broker world_tuesday k (message cfg0 (clock_today world_tuesday)
        (clock_now world_tuesday k) ([rec_a, rec_b, rec_c] ! k)) = Inl e \<longrightarrow> is_Exception e"
    by (auto simp add: world_tuesday_def broker_second_fails_def)
  from one_send_per_record [OF day fetch sends]
  show ?thesis
    by (auto simp add: world_tuesday_def broker_second_fails_def)
qed

subsection \<open>The loop of main\<close>









subsection \<open>Teardown\<close>









lemma create_kafka_producer_fails:
  "connect (bootstrap_servers cfg) = Some e \<Longrightarrow> is_Exception e \<Longrightarrow>
   create_kafka_producer cfg connect = (Inr None, [ProducerInit (bootstrap_servers cfg)])"
  by (simp add: create_kafka_producer_def Let_def)

text \<open>
  The run that is interrupted from the keyboard during the sleep of its second pass, on a
  weekend, and the run in which the sleep raises an \<open>Exception\<close> after a day's records
  were sent: how their loops end.
\<close>

lemma bootstrap_servers_cfg0:
  "bootstrap_servers cfg0 = [''daa-kafka1:9092'', ''daa-kafka2:9093'']"
  by (simp add: bootstrap_servers_def cfg0_def py_strip_def whitespace_def)






subsection \<open>Startup\<close>

text \<open>
  C8. When \<open>API_KEY\<close> is empty, \<open>main\<close> returns with an empty trace: no producer was
  created, nothing was requested and nothing sent. When the key is there and the creation
  of the producer fails (the constructor raises an \<open>Exception\<close>), \<open>main\<close> returns with the
  attempt to create the producer as its only event: the loop is never entered, whatever
  the passes through it would have done, and nothing is flushed or closed.
\<close>

theorem startup_failures_are_fatal:
  "(API_KEY cfg = [] \<longrightarrow> main cfg connect sd worlds = Some (None, [])) \<and>
   (API_KEY cfg \<noteq> [] \<and> connect (bootstrap_servers cfg) = Some e \<and> is_Exception e \<longrightarrow>
      main cfg connect sd worlds = Some (None, [ProducerInit (bootstrap_servers cfg)]))"
proof (intro conjI impI)
  assume "API_KEY cfg = []"
  then show "main cfg connect sd worlds = Some (None, [])"
    by (simp add: main_def)
next
  assume "API_KEY cfg \<noteq> [] \<and> connect (bootstrap_servers cfg) = Some e \<and> is_Exception e"
  then show "main cfg connect sd worlds = Some (None, [ProducerInit (bootstrap_servers cfg)])"
    using create_kafka_producer_fails [of connect cfg e] by (simp add: main_def)
qed

lemma API_KEY_cfg_no_key: "API_KEY cfg_no_key = []"
  by (simp add: API_KEY_def cfg_no_key_def cfg0_def py_strip_def)

text \<open>A credential of two quotes is empty once stripped; a broker that refuses.\<close>

theorem startup_failures_are_fatal_witness:
  "main cfg_no_key connect_ok shutdown_ok (\<lambda>i. world_tuesday) = Some (None, []) \<and>
   main cfg0 connect_refused shutdown_ok (\<lambda>i. world_tuesday) =
     Some (None, [ProducerInit [''daa-kafka1:9092'', ''daa-kafka2:9093'']])"
proof -
  have "API_KEY cfg0 \<noteq> [] \<and> connect_refused (bootstrap_servers cfg0) = Some KafkaError \<and>
        is_Exception KafkaError"
    by (simp add: API_KEY_cfg0 connect_refused_def)
  with startup_failures_are_fatal
      [of cfg_no_key connect_ok shutdown_ok "\<lambda>i. world_tuesday" KafkaError]
    startup_failures_are_fatal
      [of cfg0 connect_refused shutdown_ok "\<lambda>i. world_tuesday" KafkaError]
  show ?thesis
    by (simp add: API_KEY_cfg_no_key bootstrap_servers_cfg0)
qed

subsection \<open>The date of the request and the date of the envelope\<close>

text \<open>
  Every request of every fetch asks for the records of 7 April 2025, whatever the day of
  the run: \<open>basDt\<close> is a constant of the function. Every message carries the day of the
  run as its \<open>search_date\<close>.
\<close>

lemma basDt_fixed:
  assumes "get_all_stock_price_data cfg http = Some (r, tr)"
  shows "map basDt (requests tr) = replicate (length (requests tr)) ''20250407''"
proof -
  from get_all_requests [OF assms] obtain n
    where "requests tr = map (\<lambda>k. page_params cfg (1 + int k)) [0..<n]"
    by blast
  then show ?thesis
    by (simp add: page_params_def comp_def map_replicate_const)
qed

lemma message_search_date:
  "py_get (message cfg today ts item) ''search_date'' dflt = Inr (JStr (strftime_Y_m_d today))"
  by (simp add: message_def)

lemma message_api_endpoint:
  "py_get (message cfg today ts item) ''api_endpoint'' dflt = Inr (JStr (API_ENDPOINT cfg))"
  by (simp add: message_def)

lemma strftime_tuesday: "strftime_Y_m_d tuesday = ''2025-04-08''"
  by (simp add: strftime_Y_m_d_def tuesday_def zero_pad_def str_int_def str_nat.simps
      digit_char_def)

lemma fetch_trace_2_requests:
  "map basDt (requests (fetch_trace cfg 1 2 @ [HttpGet (api_url cfg) (page_params cfg 3) 20])) =
   [''20250407'', ''20250407'', ''20250407'']"
  by (simp add: requests_append numeral_2_eq_2 page_params_def)

text \<open>
  C4 says that the \<open>basDt\<close> of every request of a pass is the date of the pass. The
  source comments the constant as the date of today, but does not compute it. On the
  example Tuesday, 8 April 2025, a trading day, the pass through the loop issues three
  requests, each with \<open>basDt\<close> 20250407 and none with 20250408.
\<close>

theorem requests_on_tuesday_ask_for_monday:
  "\<exists>tr. main_loop_body cfg0 world_tuesday = Some (None, tr) \<and>
        clock_today world_tuesday = \<lparr> year = 2025, month = 4, day = 8 \<rparr> \<and>
        weekday (clock_today world_tuesday) = 1 \<and>
        map basDt (requests tr) = [''20250407'', ''20250407'', ''20250407''] \<and>
        ''20250408'' \<notin> set (map basDt (requests tr))"
proof -
  let ?w = "world_tuesday"
  let ?fetch = "fetch_trace cfg0 1 2 @ [HttpGet (api_url cfg0) (page_params cfg0 3) 20]"
  let ?tr = "?fetch @ send_trace cfg0 ?w 0 [rec_a, rec_b, rec_c] @ [Sleep (of_int (COLLECTION_INTERVAL_SECONDS cfg0))]"
  have "main_loop_body cfg0 ?w = Some (interval_sleep ?w, ?tr)"
  proof (rule main_loop_body_trading_day)
    show "weekday (clock_today ?w) < 5"
      by (simp add: world_tuesday_def weekday_tuesday)
    show "get_all_stock_price_data cfg0 (source ?w) = Some (Inr [rec_a, rec_b, rec_c], ?fetch)"
      by (simp add: world_tuesday_def get_all_two_pages)
    show "\<forall>k<length [rec_a, rec_b, rec_c]. \<forall>e.
      broker ?w k (message cfg0 (clock_today ?w) (clock_now ?w k) ([rec_a, rec_b, rec_c] ! k)) = Inl e
        \<longrightarrow> is_Exception e"
      by (auto simp add: world_tuesday_def broker_second_fails_def)
  qed
  then have run: "main_loop_body cfg0 ?w = Some (None, ?tr)"
    by (simp add: world_tuesday_def)
  have reqs: "map basDt (requests ?tr) = [''20250407'', ''20250407'', ''20250407'']"
    using fetch_trace_2_requests [of cfg0]
    by (simp add: requests_append requests_send_trace)
  have "''20250408'' \<notin> set (map basDt (requests ?tr))"
    unfolding reqs by simp
  note reqs this
  moreover have "clock_today ?w = \<lparr> year = 2025, month = 4, day = 8 \<rparr>"
    by (simp add: world_tuesday_def tuesday_def)
  moreover have "weekday (clock_today ?w) = 1"
    by (simp add: world_tuesday_def weekday_tuesday)
  ultimately show ?thesis using run by (intro exI [where x = ?tr]) simp
qed

lemma get_all_200_records:
  "get_all_stock_price_data cfg0 http_200_records =
     Some (Inr (replicate 100 rec_a @ replicate 100 rec_a),
           fetch_trace cfg0 1 2 @ [HttpGet (api_url cfg0) (page_params cfg0 3) 20])"
  by (simp add: get_all_stock_price_data_def API_KEY_cfg0 fetch_loop_Page fetch_loop_NoMoreData
      try_page_def http_200_records_def page_params_def str_int_simps item_path_api_page
      numeral_2_eq_2)

text \<open>
  C3 says that the \<open>search_date\<close> of every envelope is the date whose records were
  requested. On Tuesday, 8 April 2025, with a source of two pages of 100 records and an
  empty third page, the pass through the loop requests the records of 20250407 and sends
  200 messages, each with the configured endpoint name and each with the
  \<open>search_date\<close> 2025-04-08: the day of the run, not the day that was asked for.
\<close>

theorem envelope_on_tuesday_is_dated_tuesday:
  "\<exists>tr. main_loop_body cfg0 world_tuesday_200 = Some (None, tr) \<and>
        length (sent tr) = 200 \<and>
        map basDt (requests tr) = [''20250407'', ''20250407'', ''20250407''] \<and>
        map (\<lambda>m. py_get m ''search_date'' JNull) (sent tr) =
          replicate 200 (Inr (JStr ''2025-04-08'')) \<and>
        map (\<lambda>m. py_get m ''api_endpoint'' JNull) (sent tr) =
          replicate 200 (Inr (JStr ''getStockPriceInfo''))"
proof -
  let ?w = "world_tuesday_200"
  let ?data = "replicate 100 rec_a @ replicate 100 rec_a"
  let ?fetch = "fetch_trace cfg0 1 2 @ [HttpGet (api_url cfg0) (page_params cfg0 3) 20]"
  let ?tr = "?fetch @ send_trace cfg0 ?w 0 ?data @ [Sleep (of_int (COLLECTION_INTERVAL_SECONDS cfg0))]"
  have "main_loop_body cfg0 ?w = Some (interval_sleep ?w, ?tr)"
  proof (rule main_loop_body_trading_day)
    show "weekday (clock_today ?w) < 5"
      by (simp add: world_tuesday_200_def weekday_tuesday)
    show "get_all_stock_price_data cfg0 (source ?w) = Some (Inr ?data, ?fetch)"
      by (simp add: world_tuesday_200_def get_all_200_records)
    show "\<forall>k<length ?data. \<forall>e.
      broker ?w k (message cfg0 (clock_today ?w) (clock_now ?w k) (?data ! k)) = Inl e
        \<longrightarrow> is_Exception e"
      by (simp add: world_tuesday_200_def broker_ok_def)
  qed
  then have run: "main_loop_body cfg0 ?w = Some (None, ?tr)"
    by (simp add: world_tuesday_200_def)
  have msgs: "sent ?tr =
      map (\<lambda>k. message cfg0 (clock_today ?w) (clock_now ?w (0 + k)) (?data ! k)) [0..<length ?data]"
    by (simp only: sent_append sent_fetch_trace sent_send_trace sent.simps append_Nil
        append_Nil2)
  have len: "length (sent ?tr) = 200"
    unfolding msgs by simp
  have reqs: "map basDt (requests ?tr) = [''20250407'', ''20250407'', ''20250407'']"
    using fetch_trace_2_requests [of cfg0]
    by (simp add: requests_append requests_send_trace)
  have dates: "map (\<lambda>m. py_get m ''search_date'' JNull) (sent ?tr) =
      replicate 200 (Inr (JStr ''2025-04-08''))"
    unfolding msgs
    by (simp add: message_search_date comp_def map_replicate_const world_tuesday_200_def
        strftime_tuesday)
  have ends: "map (\<lambda>m. py_get m ''api_endpoint'' JNull) (sent ?tr) =
      replicate 200 (Inr (JStr ''getStockPriceInfo''))"
    unfolding msgs
    by (simp add: message_api_endpoint comp_def map_replicate_const cfg0_def)
  show ?thesis
    by (rule exI [where x = ?tr]) (simp only: run len reqs dates ends simp_thms)
qed

end
